theory Spec2Isabelle
  imports Complex_Main "HOL-Library.Product_Lexorder" "HOL-Library.Multiset"
begin

section \<open>JavaScript numbers\<close>

text \<open>
  The simulation controller computes with JavaScript numbers. They are modelled as
  reals with exact arithmetic; the rounding error of IEEE doubles is outside the model.
  \<open>Math.round\<close> rounds to the nearest integer, halves towards plus infinity.
\<close>

definition js_round :: "real \<Rightarrow> real" where
  "js_round x = of_int \<lfloor>x + 1 / 2\<rfloor>"

text \<open>
  Reading a property that an object does not have yields \<open>undefined\<close> (here \<open>None\<close>).
  In arithmetic \<open>undefined\<close> converts to \<open>NaN\<close>, which every later operation and
  \<open>Math.round\<close> keep, and every comparison with \<open>NaN\<close> is false. The quantities that
  can be fed from such a read have the type \<open>jsnum\<close>.
\<close>

datatype jsnum = Num real | NaN

fun js_add :: "jsnum \<Rightarrow> real option \<Rightarrow> jsnum" where
  "js_add (Num a) (Some b) = Num (a + b)"
| "js_add (Num a) None = NaN"
| "js_add NaN v = NaN"

fun js_round_num :: "jsnum \<Rightarrow> jsnum" where
  "js_round_num (Num a) = Num (js_round a)"
| "js_round_num NaN = NaN"

fun toNumber :: "real option \<Rightarrow> jsnum" where
  "toNumber (Some a) = Num a"
| "toNumber None = NaN"

fun js_plus :: "jsnum \<Rightarrow> jsnum \<Rightarrow> jsnum" where
  "js_plus (Num a) (Num b) = Num (a + b)"
| "js_plus (Num a) NaN = NaN"
| "js_plus NaN v = NaN"

fun js_minus :: "jsnum \<Rightarrow> jsnum \<Rightarrow> jsnum" where
  "js_minus (Num a) (Num b) = Num (a - b)"
| "js_minus (Num a) NaN = NaN"
| "js_minus NaN v = NaN"

fun js_times :: "jsnum \<Rightarrow> jsnum \<Rightarrow> jsnum" where
  "js_times (Num a) (Num b) = Num (a * b)"
| "js_times (Num a) NaN = NaN"
| "js_times NaN v = NaN"

text \<open>\<open>Math.min\<close> is \<open>NaN\<close> as soon as one argument is.\<close>

fun js_min :: "jsnum \<Rightarrow> jsnum \<Rightarrow> jsnum" where
  "js_min (Num a) (Num b) = Num (min a b)"
| "js_min (Num a) NaN = NaN"
| "js_min NaN v = NaN"

fun js_gt :: "jsnum \<Rightarrow> jsnum \<Rightarrow> bool" where
  "js_gt (Num a) (Num b) = (a > b)"
| "js_gt (Num a) NaN = False"
| "js_gt NaN v = False"

text \<open>Division by a number that the source has made sure is not zero.\<close>

fun js_over :: "jsnum \<Rightarrow> real \<Rightarrow> jsnum" where
  "js_over (Num a) d = Num (a / d)"
| "js_over NaN d = NaN"

text \<open>\<open>reduce((sum, x) => sum + x, 0)\<close>.\<close>

definition js_sum :: "jsnum list \<Rightarrow> jsnum" where
  "js_sum xs = foldl js_plus (Num 0) xs"

section \<open>Data model\<close>

text \<open>models/Driver.js: the fields of the driver schema.\<close>

record Driver =
  driver_id :: nat
  driver_name :: string
  employeeId :: string
  currentShiftHours :: real
  past7DayHours :: real
  maxHoursPerDay :: real
  hourlyRate :: real
  driver_status :: string
  totalDeliveries :: real
  rating :: real

text \<open>
  models/Route.js: the fields of the route schema that the simulation reads. A route
  document that a query has loaded with a field selection has only the selected fields;
  \<open>fuelCostPerKm\<close>, \<open>tollCharges\<close> and \<open>totalCompletions\<close> are \<open>None\<close> on a
  document loaded without them. \<open>trafficLevel\<close> is one of the three strings of the
  schema's enum.
\<close>

record Route =
  routeId :: string
  distance :: real
  trafficLevel :: string
  baseTime :: real
  fuelCostPerKm :: "real option"
  tollCharges :: "real option"
  totalCompletions :: "real option"

text \<open>
  models/Order.js. \<open>assignedRoute\<close> is the populated route document, \<open>None\<close> when
  the reference does not resolve. Dates are milliseconds since the epoch.
\<close>

record Order =
  orderId :: string
  valueRs :: real
  assignedRoute :: "Route option"
  deliveryTimestamp :: "real option"
  scheduledDeliveryTime :: real
  order_status :: string
  priority :: string
  isHighValue :: bool

section \<open>Model methods\<close>

text \<open>
  \<open>Driver.getFatigueFactor\<close> reads \<open>this.currentShiftHours\<close>, the field of the
  driver document. Its step function is \<open>fatigueFactor\<close>.
\<close>

definition fatigueFactor :: "real \<Rightarrow> real" where
  "fatigueFactor h =
     (if h \<le> 4 then 1.0 else if h \<le> 8 then 1.1 else if h \<le> 12 then 1.3 else 1.5)"

definition getFatigueFactor :: "Driver \<Rightarrow> real" where
  "getFatigueFactor d = fatigueFactor (currentShiftHours d)"

definition calculateFuelCost :: "Route \<Rightarrow> jsnum" where
  "calculateFuelCost r =
     js_plus (js_times (Num (distance r)) (toNumber (fuelCostPerKm r))) (toNumber (tollCharges r))"

definition getTrafficMultiplier :: "Route \<Rightarrow> real" where
  "getTrafficMultiplier r =
     (if trafficLevel r = ''Low'' then 1.0
      else if trafficLevel r = ''Medium'' then 1.2
      else if trafficLevel r = ''High'' then 1.5
      else 1.0)"

definition getEstimatedTime :: "Route \<Rightarrow> real \<Rightarrow> real" where
  "getEstimatedTime r driverFatigueFactor =
     js_round (baseTime r * getTrafficMultiplier r * driverFatigueFactor)"

text \<open>
  \<open>Order.isLate\<close>: false when there is no delivery timestamp. The scheduled time is a
  required field, so its absence is not modelled.
\<close>

definition isLate :: "Order \<Rightarrow> bool" where
  "isLate ord =
     (case deliveryTimestamp ord of
        None \<Rightarrow> False
      | Some t \<Rightarrow> t > scheduledDeliveryTime ord)"

definition hoursLate :: "Order \<Rightarrow> real" where
  "hoursLate ord =
     (case deliveryTimestamp ord of
        None \<Rightarrow> 0
      | Some t \<Rightarrow> of_int \<lceil>(t - scheduledDeliveryTime ord) / (1000 * 60 * 60)\<rceil>)"

definition calculateDeliveryBonus :: "Order \<Rightarrow> real" where
  "calculateDeliveryBonus ord =
     (let bonus0 = 0;
          bonus1 = (if isHighValue ord then bonus0 + valueRs ord * 0.02 else bonus0);
          bonus2 = (if order_status ord = ''delivered'' \<and> \<not> isLate ord
                    then bonus1 + 100 else bonus1);
          bonus3 = (if order_status ord = ''delivered'' \<and> isLate ord
                    then bonus2 - hoursLate ord * 50 else bonus2)
      in max bonus3 (- 500))"

section \<open>Sorting the order queue\<close>

text \<open>
  The comparator of \<open>orders.sort\<close> in \<open>performDeliverySimulation\<close> looks the priority
  string up in the object literal \<open>{ urgent: 4, high: 3, medium: 2, low: 1 }\<close>. The
  lookup finds the four own keys, and for the names of the members that every object
  inherits from \<open>Object.prototype\<close> it finds that member, a function or an object. Such
  a member is truthy, so \<open>|| 2\<close> does not replace it; for every other string the
  lookup is \<open>undefined\<close> and \<open>|| 2\<close> gives 2.
\<close>

definition objectPrototypeKeys :: "string list" where
  "objectPrototypeKeys =
     [''constructor'', ''__defineGetter__'', ''__defineSetter__'', ''hasOwnProperty'',
      ''__lookupGetter__'', ''__lookupSetter__'', ''isPrototypeOf'', ''propertyIsEnumerable'',
      ''toString'', ''valueOf'', ''__proto__'', ''toLocaleString'']"

datatype weight = Weight real | Inherited string

definition priorityWeight :: "string \<Rightarrow> weight" where
  "priorityWeight p =
     (if p = ''urgent'' then Weight 4
      else if p = ''high'' then Weight 3
      else if p = ''medium'' then Weight 2
      else if p = ''low'' then Weight 1
      else if p \<in> set objectPrototypeKeys then Inherited p
      else Weight 2)"

text \<open>
  \<open>bPriority - aPriority\<close>: the difference of two numbers; an inherited member
  converts to \<open>NaN\<close>. Two lookups are \<open>!==\<close> unless they are the same number or the
  same inherited member.
\<close>

fun subtractWeights :: "weight \<Rightarrow> weight \<Rightarrow> jsnum" where
  "subtractWeights (Weight b) (Weight a) = Num (b - a)"
| "subtractWeights (Weight b) (Inherited k) = NaN"
| "subtractWeights (Inherited k) w = NaN"

definition compareOrders :: "Order \<Rightarrow> Order \<Rightarrow> jsnum" where
  "compareOrders a b =
     (let aPriority = priorityWeight (priority a);
          bPriority = priorityWeight (priority b)
      in if aPriority \<noteq> bPriority then subtractWeights bPriority aPriority
         else Num (valueRs b - valueRs a))"

text \<open>
  \<open>Array.prototype.sort\<close> takes a comparator result of \<open>NaN\<close> as 0 and is a stable
  sort (ECMAScript 2019). For a comparator that is a total preorder the stable sorted
  arrangement of an array is unique, so any stable algorithm computes it; the model is
  insertion from the right, which puts an element before the first element that does not
  have to precede it. Where the comparator answers \<open>NaN\<close> it is not a consistent
  ordering and the standard leaves the arrangement to the engine.
\<close>

fun sortCompare :: "jsnum \<Rightarrow> real" where
  "sortCompare (Num v) = v"
| "sortCompare NaN = 0"

fun insertOrder :: "Order \<Rightarrow> Order list \<Rightarrow> Order list" where
  "insertOrder x [] = [x]"
| "insertOrder x (y # ys) =
     (if sortCompare (compareOrders x y) \<le> 0 then x # y # ys else y # insertOrder x ys)"

definition sortOrders :: "Order list \<Rightarrow> Order list" where
  "sortOrders orders = foldr insertOrder orders []"

section \<open>The simulation controller\<close>

subsection \<open>Per-run records\<close>

text \<open>
  The object literal returned by \<open>simulateDelivery\<close>. Fields whose names are also
  names of a schema field or of a function carry the prefix \<open>dr_\<close>.
\<close>

record deliveryResult =
  dr_orderId :: string
  dr_driverId :: nat
  dr_driverName :: string
  dr_routeId :: string
  dr_distance :: real
  timeSpent :: real
  fuelCost :: jsnum
  driverEarnings :: real
  deliveryBonus :: real
  profit :: jsnum
  isOnTime :: bool
  scheduledTime :: real
  actualDeliveryTime :: real
  dr_fatigueFactor :: real
  dr_trafficMultiplier :: real

text \<open>
  The literal has no property \<open>earnings\<close>; the read \<open>deliveryResult.earnings\<close> in
  the assignment loop yields \<open>undefined\<close>.
\<close>

definition earnings :: "deliveryResult \<Rightarrow> real option" where
  "earnings r = None"

text \<open>The per-run state record that \<open>performDeliverySimulation\<close> creates for a driver.\<close>

record driverState =
  driver :: Driver
  currentHours :: real
  assignedOrders :: "deliveryResult list"
  totalEarnings :: jsnum
  totalDistance :: real
  currentTime :: real

record performance =
  p_driverId :: nat
  p_driverName :: string
  ordersCompleted :: nat
  p_totalEarnings :: jsnum
  p_totalDistance :: real
  hoursWorked :: real
  efficiency :: jsnum
  onTimeRate :: real

text \<open>
  The \<open>results\<close> object. \<open>efficiencyScore\<close> and
  \<open>optimizationDetails.averageUtilization\<close> are left out: they are quotients whose
  divisors the function does not guard, and nothing below depends on them.
\<close>

record results =
  totalProfit :: jsnum
  totalFuelCost :: jsnum
  totalOrders :: nat
  onTimeDeliveries :: nat
  lateDeliveries :: nat
  driversUsed :: nat
  driverPerformance :: "performance list"
  orderResults :: "deliveryResult list"
  od_totalDistance :: real
  od_totalTime :: real

datatype error = TypeError | QueryError

subsection \<open>Choosing a driver\<close>

definition calculateDriverScore :: "driverState \<Rightarrow> Order \<Rightarrow> Route \<Rightarrow> jsnum" where
  "calculateDriverScore ds ord route =
     (let d = driver ds;
          score0 = 0;
          score1 = score0 + rating d * 20;
          fatigue = getFatigueFactor d;
          score2 = score1 - (fatigue - 1) * 30;
          score3 = score2 + (8 - currentHours ds) * 5;
          score4 = js_plus (Num score3)
                     (js_min (js_times (toNumber (totalCompletions route)) (Num 0.1)) (Num 10));
          score5 = (if isHighValue ord \<and> rating d < 4.5 then js_minus score4 (Num 20)
                    else score4)
      in score5)"

text \<open>
  The loop of \<open>findOptimalDriver\<close> over the driver states, each paired with its index
  in the array; the accumulator is \<open>(bestDriver, bestScore)\<close>, and \<open>bestDriver\<close> is the
  index of the state object the source holds a reference to.
\<close>

fun scanDrivers ::
  "real \<Rightarrow> Order \<Rightarrow> (nat \<times> driverState) list \<Rightarrow> nat option \<times> jsnum \<Rightarrow> nat option \<times> jsnum"
where
  "scanDrivers maxHours ord [] best = best"
| "scanDrivers maxHours ord ((i, ds) # rest) (bestDriver, bestScore) =
     (case assignedRoute ord of
        None \<Rightarrow> scanDrivers maxHours ord rest (bestDriver, bestScore)
      | Some route \<Rightarrow>
          (let estimatedTime = getEstimatedTime route (getFatigueFactor (driver ds)) / 60
           in if currentHours ds + estimatedTime > maxHours
              then scanDrivers maxHours ord rest (bestDriver, bestScore)
              else (let score = calculateDriverScore ds ord route
                    in if js_gt score bestScore
                       then scanDrivers maxHours ord rest (Some i, score)
                       else scanDrivers maxHours ord rest (bestDriver, bestScore))))"

definition findOptimalDriver :: "driverState list \<Rightarrow> Order \<Rightarrow> real \<Rightarrow> nat option" where
  "findOptimalDriver driverStates ord maxHours =
     fst (scanDrivers maxHours ord (enumerate 0 driverStates) (None, Num (- 1)))"

subsection \<open>Simulating one delivery\<close>

text \<open>
  \<open>simulateDelivery\<close> dereferences \<open>order.assignedRoute\<close>; on an order without a
  route \<open>route.baseTime\<close> throws a TypeError. The parameter \<open>simulationStartTime\<close> is
  not used by the body.
\<close>

definition simulateDelivery :: "driverState \<Rightarrow> Order \<Rightarrow> real \<Rightarrow> error + deliveryResult" where
  "simulateDelivery ds ord simulationStartTime =
     (case assignedRoute ord of
        None \<Rightarrow> Inl TypeError
      | Some route \<Rightarrow>
          (let d = driver ds;
               fatigue = getFatigueFactor d;
               trafficMultiplier = getTrafficMultiplier route;
               actualTime = js_round (baseTime route * trafficMultiplier * fatigue);
               fuel = calculateFuelCost route;
               earned = (actualTime / 60) * hourlyRate d;
               bonus = calculateDeliveryBonus ord;
               deliveryTime = currentTime ds + actualTime * 60 * 1000;
               revenue = valueRs ord * 0.1;
               totalCosts = js_plus fuel (Num earned);
               gain = js_plus (js_minus (Num revenue) totalCosts) (Num bonus)
           in Inr \<lparr> dr_orderId = orderId ord,
                     dr_driverId = driver_id d,
                     dr_driverName = driver_name d,
                     dr_routeId = routeId route,
                     dr_distance = distance route,
                     timeSpent = actualTime,
                     fuelCost = js_round_num fuel,
                     driverEarnings = js_round earned,
                     deliveryBonus = js_round bonus,
                     profit = js_round_num gain,
                     isOnTime = (deliveryTime \<le> scheduledDeliveryTime ord),
                     scheduledTime = scheduledDeliveryTime ord,
                     actualDeliveryTime = deliveryTime,
                     dr_fatigueFactor = js_round (fatigue * 100) / 100,
                     dr_trafficMultiplier = js_round (trafficMultiplier * 100) / 100 \<rparr>))"

subsection \<open>The assignment loop\<close>

text \<open>The updates of the chosen driver state and of \<open>results\<close> in the loop body.\<close>

definition recordDelivery :: "driverState \<Rightarrow> deliveryResult \<Rightarrow> driverState" where
  "recordDelivery bestDriver deliveryResult =
     bestDriver
       \<lparr> assignedOrders := assignedOrders bestDriver @ [deliveryResult],
         totalEarnings := js_add (totalEarnings bestDriver) (earnings deliveryResult),
         totalDistance := totalDistance bestDriver + dr_distance deliveryResult,
         currentHours := currentHours bestDriver + timeSpent deliveryResult / 60,
         currentTime := currentTime bestDriver + timeSpent deliveryResult * 60 * 1000 \<rparr>"

definition updateResults :: "results \<Rightarrow> deliveryResult \<Rightarrow> results" where
  "updateResults res deliveryResult =
     res
       \<lparr> totalOrders := totalOrders res + 1,
         totalProfit := js_plus (totalProfit res) (profit deliveryResult),
         totalFuelCost := js_plus (totalFuelCost res) (fuelCost deliveryResult),
         onTimeDeliveries :=
           (if isOnTime deliveryResult then onTimeDeliveries res + 1 else onTimeDeliveries res),
         lateDeliveries :=
           (if isOnTime deliveryResult then lateDeliveries res else lateDeliveries res + 1),
         orderResults := orderResults res @ [deliveryResult],
         od_totalDistance := od_totalDistance res + dr_distance deliveryResult,
         od_totalTime := od_totalTime res + timeSpent deliveryResult \<rparr>"

text \<open>One iteration of \<open>for (const order of sortedOrders)\<close>.\<close>

definition assignOrder ::
  "real \<Rightarrow> real \<Rightarrow> driverState list \<times> results \<Rightarrow> Order \<Rightarrow> error + driverState list \<times> results"
where
  "assignOrder maxHours simulationStartTime st ord =
     (case st of (driverStates, res) \<Rightarrow>
        (case findOptimalDriver driverStates ord maxHours of
           None \<Rightarrow> Inr (driverStates, res)
         | Some i \<Rightarrow>
             (case simulateDelivery (driverStates ! i) ord simulationStartTime of
                Inl e \<Rightarrow> Inl e
              | Inr deliveryResult \<Rightarrow>
                  Inr (driverStates[i := recordDelivery (driverStates ! i) deliveryResult],
                       updateResults res deliveryResult))))"

fun assignOrders ::
  "real \<Rightarrow> real \<Rightarrow> driverState list \<times> results \<Rightarrow> Order list \<Rightarrow> error + driverState list \<times> results"
where
  "assignOrders maxHours simulationStartTime st [] = Inr st"
| "assignOrders maxHours simulationStartTime st (ord # rest) =
     (case assignOrder maxHours simulationStartTime st ord of
        Inl e \<Rightarrow> Inl e
      | Inr st' \<Rightarrow> assignOrders maxHours simulationStartTime st' rest)"

subsection \<open>performDeliverySimulation\<close>

definition initialResults :: results where
  "initialResults =
     \<lparr> totalProfit = Num 0, totalFuelCost = Num 0, totalOrders = 0, onTimeDeliveries = 0,
       lateDeliveries = 0, driversUsed = 0, driverPerformance = [], orderResults = [],
       od_totalDistance = 0, od_totalTime = 0 \<rparr>"

definition initialDriverState :: "real \<Rightarrow> Driver \<Rightarrow> driverState" where
  "initialDriverState simulationStartTime d =
     \<lparr> driver = d,
       currentHours = currentShiftHours d,
       assignedOrders = [],
       totalEarnings = Num 0,
       totalDistance = 0,
       currentTime = simulationStartTime \<rparr>"

text \<open>
  The first half of \<open>performDeliverySimulation\<close>: the state records, the sorted queue
  and the assignment loop. Its value is the final driver states and the accumulated
  \<open>results\<close> before the summary is built.
\<close>

definition runAssignment ::
  "Driver list \<Rightarrow> Order list \<Rightarrow> real \<Rightarrow> real \<Rightarrow> error + driverState list \<times> results"
where
  "runAssignment drivers orders maxHours simulationStartTime =
     assignOrders maxHours simulationStartTime
       (map (initialDriverState simulationStartTime) drivers, initialResults)
       (sortOrders orders)"

definition calculateDriverEfficiency :: "driverState \<Rightarrow> jsnum" where
  "calculateDriverEfficiency ds =
     (if length (assignedOrders ds) = 0 then Num 0
      else (let totalRevenue = js_sum (map profit (assignedOrders ds));
                totalTime = currentHours ds;
                eff = (if totalTime > 0 then js_over totalRevenue totalTime else Num 0)
            in js_over (js_round_num (js_times eff (Num 100))) 100))"

definition driverPerformanceOf :: "driverState \<Rightarrow> performance" where
  "driverPerformanceOf ds =
     \<lparr> p_driverId = driver_id (driver ds),
       p_driverName = driver_name (driver ds),
       ordersCompleted = length (assignedOrders ds),
       p_totalEarnings = js_round_num (totalEarnings ds),
       p_totalDistance = js_round (totalDistance ds * 100) / 100,
       hoursWorked = js_round (currentHours ds * 100) / 100,
       efficiency = calculateDriverEfficiency ds,
       onTimeRate =
         real (length (filter isOnTime (assignedOrders ds)))
           / real (length (assignedOrders ds)) * 100 \<rparr>"

definition summarize :: "driverState list \<times> results \<Rightarrow> results" where
  "summarize st =
     (case st of (driverStates, res) \<Rightarrow>
        res \<lparr> driversUsed := length (filter (\<lambda>ds. length (assignedOrders ds) > 0) driverStates),
              driverPerformance :=
                map driverPerformanceOf
                  (filter (\<lambda>ds. length (assignedOrders ds) > 0) driverStates),
              totalProfit := js_round_num (totalProfit res),
              totalFuelCost := js_round_num (totalFuelCost res) \<rparr>)"

text \<open>
  \<open>startTime || Date.now()\<close>: the start time when the request gives one, otherwise
  the clock, a parameter here.
\<close>

definition performDeliverySimulation ::
  "Driver list \<Rightarrow> Order list \<Rightarrow> real \<Rightarrow> real option \<Rightarrow> real \<Rightarrow> error + results"
where
  "performDeliverySimulation drivers orders maxHours startTime now =
     (let simulationStartTime = (case startTime of Some t \<Rightarrow> t | None \<Rightarrow> now)
      in case runAssignment drivers orders maxHours simulationStartTime of
           Inl e \<Rightarrow> Inl e
         | Inr st \<Rightarrow> Inr (summarize st))"

subsection \<open>runSimulation and the shared flag\<close>

record requestBody =
  numberOfDrivers :: "real option"
  startTime :: "real option"
  maxHoursPerDriver :: "real option"

record cachedResults =
  cr_results :: results
  timestamp :: real
  parameters :: requestBody

text \<open>The two module-level variables of the controller.\<close>

record simState =
  simulationInProgress :: bool
  simulationResults :: "cachedResults option"

record response =
  statusCode :: nat
  status :: string
  message :: string
  payload :: "cachedResults option"

text \<open>
  The stored documents behind \<open>Driver.find\<close> and \<open>Order.find\<close> (an order with the
  route document it refers to), whether each query rejects (an exception at the
  \<open>await\<close>), and the clock.
\<close>

record env =
  driversCollection :: "Driver list"
  ordersCollection :: "Order list"
  driverQueryFails :: bool
  orderQueryFails :: bool
  clock :: real

text \<open>
  \<open>Driver.find({ status: "active" }).sort({ currentShiftHours: 1, rating: -1 })
  .limit(numberOfDrivers)\<close>: the active drivers, ascending by \<open>currentShiftHours\<close>,
  then descending by \<open>rating\<close>, cut to the requested count.
\<close>

definition findActiveDrivers :: "env \<Rightarrow> real \<Rightarrow> error + Driver list" where
  "findActiveDrivers e n =
     (if driverQueryFails e then Inl QueryError
      else Inr (take (nat \<lfloor>n\<rfloor>)
             (sort_key (\<lambda>d. (currentShiftHours d, - rating d))
                (filter (\<lambda>d. driver_status d = ''active'') (driversCollection e)))))"

text \<open>
  The \<open>pre(/^find/)\<close> hook of the Order model populates \<open>assignedRoute\<close> with the
  selection \<open>routeId name distance trafficLevel baseTime\<close>. It runs when the query
  executes, after the controller's own \<open>populate("assignedRoute")\<close>, and replaces it;
  the route of an order that \<open>Order.find\<close> returns has the selected fields only.
\<close>

definition selectRouteFields :: "Route \<Rightarrow> Route" where
  "selectRouteFields r = r \<lparr> fuelCostPerKm := None, tollCharges := None, totalCompletions := None \<rparr>"

definition populateOrder :: "Order \<Rightarrow> Order" where
  "populateOrder ord = ord \<lparr> assignedRoute := map_option selectRouteFields (assignedRoute ord) \<rparr>"

text \<open>
  \<open>Order.find({ status: "pending" })\<close>: the filter is on the status alone; every other
  field of a stored order, its delivery timestamp included, is returned as stored.
\<close>

definition findPendingOrders :: "env \<Rightarrow> error + Order list" where
  "findPendingOrders e =
     (if orderQueryFails e then Inl QueryError
      else Inr (map populateOrder
             (filter (\<lambda>ord. order_status ord = ''pending'') (ordersCollection e))))"

definition reject :: "nat \<Rightarrow> string \<Rightarrow> response" where
  "reject code msg = \<lparr> statusCode = code, status = ''error'', message = msg, payload = None \<rparr>"

text \<open>The \<open>catch\<close> block of \<open>runSimulation\<close>.\<close>

definition failed :: "simState \<Rightarrow> response \<times> simState" where
  "failed st = (reject 500 ''Simulation failed'', st \<lparr> simulationInProgress := False \<rparr>)"

definition runSimulation :: "env \<Rightarrow> requestBody \<Rightarrow> simState \<Rightarrow> response \<times> simState" where
  "runSimulation e body st =
     (case numberOfDrivers body of
        None \<Rightarrow> (reject 400 ''Number of drivers must be between 1 and 50'', st)
      | Some n \<Rightarrow>
     if n = 0 \<or> n < 1 \<or> n > 50
     then (reject 400 ''Number of drivers must be between 1 and 50'', st)
     else
     (case maxHoursPerDriver body of
        None \<Rightarrow> (reject 400 ''Max hours per driver must be between 1 and 24'', st)
      | Some h \<Rightarrow>
     if h = 0 \<or> h < 1 \<or> h > 24
     then (reject 400 ''Max hours per driver must be between 1 and 24'', st)
     else if simulationInProgress st
     then (reject 409 ''Simulation is already in progress. Please wait for it to complete.'', st)
     else
       (let st1 = st \<lparr> simulationInProgress := True \<rparr>
        in case findActiveDrivers e n of
             Inl err \<Rightarrow> failed st1
           | Inr availableDrivers \<Rightarrow>
               (case findPendingOrders e of
                  Inl err \<Rightarrow> failed st1
                | Inr pendingOrders \<Rightarrow>
                    if length availableDrivers = 0
                    then (reject 400 ''No active drivers available for simulation'',
                          st1 \<lparr> simulationInProgress := False \<rparr>)
                    else if length pendingOrders = 0
                    then (reject 400 ''No pending orders available for simulation'',
                          st1 \<lparr> simulationInProgress := False \<rparr>)
                    else
                      (case performDeliverySimulation availableDrivers pendingOrders
                              h (startTime body) (clock e) of
                         Inl err \<Rightarrow> failed st1
                       | Inr res \<Rightarrow>
                           (let cached = \<lparr> cr_results = res, timestamp = clock e,
                                            parameters = body \<rparr>;
                                st2 = st1 \<lparr> simulationResults := Some cached \<rparr>;
                                st3 = st2 \<lparr> simulationInProgress := False \<rparr>
                            in (\<lparr> statusCode = 200, status = ''success'',
                                   message = ''Simulation completed successfully'',
                                   payload = Some cached \<rparr>, st3)))))))"

text \<open>\<open>getSimulationStatus\<close> reads both variables and changes neither.\<close>

definition getSimulationStatus :: "simState \<Rightarrow> (bool \<times> cachedResults option) \<times> simState" where
  "getSimulationStatus st = ((simulationInProgress st, simulationResults st), st)"

section \<open>Predicates used in the statements\<close>

text \<open>The two parameter checks of \<open>runSimulation\<close>, negated.\<close>

definition validNumberOfDrivers :: "requestBody \<Rightarrow> bool" where
  "validNumberOfDrivers body =
     (case numberOfDrivers body of None \<Rightarrow> False | Some n \<Rightarrow> \<not> (n = 0 \<or> n < 1 \<or> n > 50))"

definition validMaxHours :: "requestBody \<Rightarrow> bool" where
  "validMaxHours body =
     (case maxHoursPerDriver body of None \<Rightarrow> False | Some h \<Rightarrow> \<not> (h = 0 \<or> h < 1 \<or> h > 24))"



text \<open>
  A driver state passes the hour check of \<open>findOptimalDriver\<close> for an order: the order
  has a route and the second \<open>continue\<close> is not taken.
\<close>

definition eligible :: "real \<Rightarrow> Order \<Rightarrow> driverState \<Rightarrow> bool" where
  "eligible maxHours ord ds =
     (case assignedRoute ord of
        None \<Rightarrow> False
      | Some route \<Rightarrow>
          currentHours ds + getEstimatedTime route (getFatigueFactor (driver ds)) / 60 \<le> maxHours)"

text \<open>
  The hour invariant of a driver state: its hours are the shift hours of its driver plus
  \<open>timeSpent / 60\<close> for each order assigned to it, and once it has an order they are
  within the limit.
\<close>

definition withinHours :: "real \<Rightarrow> driverState \<Rightarrow> bool" where
  "withinHours maxHours ds \<longleftrightarrow>
     currentHours ds
       = currentShiftHours (driver ds) + sum_list (map (\<lambda>r. timeSpent r / 60) (assignedOrders ds)) \<and>
     (assignedOrders ds \<noteq> [] \<longrightarrow> currentHours ds \<le> maxHours)"

text \<open>
  A delivery result was produced by \<open>simulateDelivery\<close> for a state of one of the
  given drivers and an order of the given queue.
\<close>

definition producedBy :: "Driver list \<Rightarrow> Order list \<Rightarrow> real \<Rightarrow> deliveryResult \<Rightarrow> bool" where
  "producedBy drivers queue t0 r \<longleftrightarrow>
     (\<exists>ds :: driverState. \<exists>ord.
        driver ds \<in> set drivers \<and> ord \<in> set queue \<and> simulateDelivery ds ord t0 = Inr r)"

section \<open>Example data\<close>

definition driverA :: Driver where
  "driverA =
     \<lparr> driver_id = 1, driver_name = ''Asha'', employeeId = ''E1'', currentShiftHours = 3.5,
       past7DayHours = 20, maxHoursPerDay = 8, hourlyRate = 150, driver_status = ''active'',
       totalDeliveries = 12, rating = 4.8 \<rparr>"

definition driverLow :: Driver where
  "driverLow =
     \<lparr> driver_id = 2, driver_name = ''Ravi'', employeeId = ''E2'', currentShiftHours = 13,
       past7DayHours = 40, maxHoursPerDay = 16, hourlyRate = 120, driver_status = ''active'',
       totalDeliveries = 3, rating = 1 \<rparr>"

definition routeA :: Route where
  "routeA =
     \<lparr> routeId = ''R1'', distance = 1, trafficLevel = ''Low'', baseTime = 60,
       fuelCostPerKm = Some 10.4, tollCharges = Some 0, totalCompletions = Some 0 \<rparr>"

definition orderA :: Order where
  "orderA =
     \<lparr> orderId = ''O1'', valueRs = 15000, assignedRoute = Some routeA,
       deliveryTimestamp = None, scheduledDeliveryTime = 10000000, order_status = ''pending'',
       priority = ''high'', isHighValue = True \<rparr>"

text \<open>An order whose scheduled time has passed when the simulation starts at time 0.\<close>

definition orderLate :: Order where
  "orderLate = orderA \<lparr> orderId := ''O2'', scheduledDeliveryTime := 0 \<rparr>"

definition orderB :: Order where
  "orderB = orderA \<lparr> orderId := ''O3'', valueRs := 500, priority := ''low'', isHighValue := False \<rparr>"


definition orderD :: Order where
  "orderD = orderA \<lparr> orderId := ''O5'' \<rparr>"

text \<open>A pending order that carries a delivery timestamp.\<close>

definition orderStamped :: Order where
  "orderStamped = orderA \<lparr> orderId := ''O6'', deliveryTimestamp := Some 5 \<rparr>"



definition envA :: env where
  "envA =
     \<lparr> driversCollection = [driverA], ordersCollection = [orderA],
       driverQueryFails = False, orderQueryFails = False, clock = 0 \<rparr>"

definition idle :: simState where
  "idle = \<lparr> simulationInProgress = False, simulationResults = None \<rparr>"

definition busy :: simState where
  "busy = \<lparr> simulationInProgress = True, simulationResults = None \<rparr>"

definition bodyA :: requestBody where
  "bodyA = \<lparr> numberOfDrivers = Some 1, startTime = None, maxHoursPerDriver = Some 8 \<rparr>"

section \<open>Rounding\<close>

lemma js_round_of_int: "js_round (of_int k) = of_int k"
  by (simp add: js_round_def)

lemma js_round_Ints: "js_round x \<in> \<int>"
  by (simp add: js_round_def)

lemma js_round_id: "x \<in> \<int> \<Longrightarrow> js_round x = x"
  by (auto simp: Ints_def js_round_of_int)

text \<open>A value that \<open>Math.round\<close> leaves as it is: \<open>NaN\<close> or a whole number.\<close>

lemma js_round_num_idem: "js_round_num (js_round_num v) = js_round_num v"
  by (cases v) (simp_all add: js_round_of_int js_round_def)

lemma js_round_num_plus:
  assumes "js_round_num a = a" and "js_round_num b = b"
  shows "js_round_num (js_plus a b) = js_plus a b"
proof (cases a)
  case (Num x)
  show ?thesis
  proof (cases b)
    case (Num y)
    from assms Num \<open>a = Num x\<close> have "js_round x = x" and "js_round y = y" by simp_all
    then have "x \<in> \<int>" and "y \<in> \<int>" using js_round_Ints by metis+
    then have "x + y \<in> \<int>" by simp
    with Num \<open>a = Num x\<close> show ?thesis by (simp add: js_round_id)
  next
    case NaN
    with Num show ?thesis by simp
  qed
next
  case NaN
  then show ?thesis by simp
qed

lemma js_round_num_foldl:
  assumes "js_round_num acc = acc" and "\<forall>x \<in> set xs. js_round_num x = x"
  shows "js_round_num (foldl js_plus acc xs) = foldl js_plus acc xs"
  using assms by (induction xs arbitrary: acc) (simp_all add: js_round_num_plus)

lemma js_round_num_sum:
  assumes "\<forall>x \<in> set xs. js_round_num x = x"
  shows "js_round_num (js_sum xs) = js_sum xs"
  unfolding js_sum_def using assms by (intro js_round_num_foldl) (simp_all add: js_round_of_int[of 0, simplified])

lemma js_sum_snoc: "js_sum (xs @ [x]) = js_plus (js_sum xs) x"
  by (simp add: js_sum_def)

section \<open>The sort\<close>






lemma set_insertOrder: "set (insertOrder x ys) = insert x (set ys)"
  by (induction ys) auto

lemma set_sortOrders: "set (sortOrders orders) = set orders"
  unfolding sortOrders_def by (induction orders) (simp_all add: set_insertOrder)

section \<open>Choosing a driver and simulating\<close>

lemma scanDrivers_Some:
  "scanDrivers maxHours ord xs (b, s) = (Some i, s') \<Longrightarrow>
     b = Some i \<or> (\<exists>ds. (i, ds) \<in> set xs \<and> eligible maxHours ord ds)"
proof (induction xs arbitrary: b s)
  case Nil
  then show ?case by simp
next
  case (Cons x xs)
  obtain j ds where x: "x = (j, ds)" by (cases x)
  show ?case
  proof (cases "assignedRoute ord")
    case None
    with Cons x show ?thesis by auto
  next
    case (Some route)
    with Cons.prems x Cons.IH show ?thesis
      by (fastforce simp: Let_def eligible_def split: if_splits)
  qed
qed

lemma findOptimalDriver_Some:
  assumes "findOptimalDriver driverStates ord maxHours = Some i"
  shows "i < length driverStates \<and> eligible maxHours ord (driverStates ! i)"
proof -
  obtain s' where "scanDrivers maxHours ord (enumerate 0 driverStates) (None, Num (- 1)) = (Some i, s')"
    using assms unfolding findOptimalDriver_def
    by (cases "scanDrivers maxHours ord (enumerate 0 driverStates) (None, Num (- 1))") simp
  from scanDrivers_Some[OF this] show ?thesis
    by (auto simp: in_set_enumerate_eq)
qed

lemma simulateDelivery_Some:
  assumes "assignedRoute ord = Some route"
  shows "\<exists>r. simulateDelivery ds ord t0 = Inr r \<and>
           timeSpent r = getEstimatedTime route (getFatigueFactor (driver ds))"
  using assms by (simp add: simulateDelivery_def Let_def getEstimatedTime_def)

text \<open>The two ways an iteration of the loop can go; it never throws.\<close>

lemma assignOrder_cases:
  "(findOptimalDriver driverStates ord maxHours = None \<and>
      assignOrder maxHours t0 (driverStates, res) ord = Inr (driverStates, res)) \<or>
   (\<exists>i r. findOptimalDriver driverStates ord maxHours = Some i \<and> i < length driverStates \<and>
      eligible maxHours ord (driverStates ! i) \<and>
      simulateDelivery (driverStates ! i) ord t0 = Inr r \<and>
      assignOrder maxHours t0 (driverStates, res) ord =
        Inr (driverStates[i := recordDelivery (driverStates ! i) r], updateResults res r))"
proof (cases "findOptimalDriver driverStates ord maxHours")
  case None
  then show ?thesis by (simp add: assignOrder_def)
next
  case (Some i)
  from findOptimalDriver_Some[OF Some]
  have i: "i < length driverStates" and e: "eligible maxHours ord (driverStates ! i)" by auto
  from e obtain route where r: "assignedRoute ord = Some route"
    by (auto simp: eligible_def split: option.splits)
  from simulateDelivery_Some[OF r] obtain r' where
    "simulateDelivery (driverStates ! i) ord t0 = Inr r'" by blast
  with Some i e show ?thesis by (simp add: assignOrder_def)
qed

lemma assignOrders_Cons_Inr:
  assumes "assignOrders maxHours t0 (driverStates, res) (ord # todo) = Inr (dss', res')"
  obtains dss1 res1 where
    "assignOrder maxHours t0 (driverStates, res) ord = Inr (dss1, res1)" and
    "assignOrders maxHours t0 (dss1, res1) todo = Inr (dss', res')"
  using assms by (auto split: sum.splits)

section \<open>The hour limit\<close>

lemma recordDelivery_within:
  assumes "eligible maxHours ord ds" and "simulateDelivery ds ord t0 = Inr r"
  shows "currentHours (recordDelivery ds r) \<le> maxHours"
proof -
  from assms(1) obtain route where r: "assignedRoute ord = Some route"
    and le: "currentHours ds + getEstimatedTime route (getFatigueFactor (driver ds)) / 60 \<le> maxHours"
    by (auto simp: eligible_def split: option.splits)
  from simulateDelivery_Some[OF r, of ds t0] assms(2)
  have "timeSpent r = getEstimatedTime route (getFatigueFactor (driver ds))" by simp
  with le show ?thesis by (simp add: recordDelivery_def)
qed

lemma assignOrder_within:
  assumes "\<forall>ds \<in> set driverStates. withinHours maxHours ds"
  shows "\<exists>dss' res'. assignOrder maxHours t0 (driverStates, res) ord = Inr (dss', res') \<and>
           (\<forall>ds \<in> set dss'. withinHours maxHours ds)"
  using assignOrder_cases[of driverStates ord maxHours t0 res]
proof (elim disjE conjE exE)
  assume "assignOrder maxHours t0 (driverStates, res) ord = Inr (driverStates, res)"
  with assms show ?thesis by simp
next
  fix i r
  assume i: "i < length driverStates" and e: "eligible maxHours ord (driverStates ! i)"
    and s: "simulateDelivery (driverStates ! i) ord t0 = Inr r"
    and a: "assignOrder maxHours t0 (driverStates, res) ord =
        Inr (driverStates[i := recordDelivery (driverStates ! i) r], updateResults res r)"
  from i assms have "withinHours maxHours (driverStates ! i)" by simp
  then have "withinHours maxHours (recordDelivery (driverStates ! i) r)"
    using recordDelivery_within[OF e s] by (simp add: withinHours_def recordDelivery_def)
  then have "\<forall>ds \<in> set (driverStates[i := recordDelivery (driverStates ! i) r]). withinHours maxHours ds"
    using assms by (auto dest!: subsetD[OF set_update_subset_insert])
  with a show ?thesis by simp
qed

lemma assignOrders_within:
  assumes "\<forall>ds \<in> set driverStates. withinHours maxHours ds"
  shows "\<exists>dss' res'. assignOrders maxHours t0 (driverStates, res) queue = Inr (dss', res') \<and>
           (\<forall>ds \<in> set dss'. withinHours maxHours ds)"
  using assms
proof (induction queue arbitrary: driverStates res)
  case Nil
  then show ?case by simp
next
  case (Cons ord queue)
  from assignOrder_within[OF Cons.prems, of t0 res ord]
  obtain dss1 res1 where 1: "assignOrder maxHours t0 (driverStates, res) ord = Inr (dss1, res1)"
    and 2: "\<forall>ds \<in> set dss1. withinHours maxHours ds" by blast
  from Cons.IH[OF 2, of res1] 1 show ?case by simp
qed

lemma initial_within: "\<forall>ds \<in> set (map (initialDriverState t0) drivers). withinHours maxHours ds"
  by (simp add: withinHours_def initialDriverState_def)

lemma runAssignment_total:
  "\<exists>dss res. runAssignment drivers orders maxHours t0 = Inr (dss, res)"
  unfolding runAssignment_def
  using assignOrders_within[OF initial_within] by blast

section \<open>The driver records\<close>

lemma assignOrder_driver:
  assumes "assignOrder maxHours t0 (driverStates, res) ord = Inr (dss', res')"
  shows "map driver dss' = map driver driverStates"
  using assignOrder_cases[of driverStates ord maxHours t0 res] assms
  by (auto simp: map_update recordDelivery_def list_update_same_conv)

lemma assignOrders_driver:
  assumes "assignOrders maxHours t0 (driverStates, res) todo = Inr (dss', res')"
  shows "map driver dss' = map driver driverStates"
  using assms
proof (induction todo arbitrary: driverStates res)
  case Nil
  then show ?case by simp
next
  case (Cons ord todo)
  from Cons.prems obtain dss1 res1 where
    1: "assignOrder maxHours t0 (driverStates, res) ord = Inr (dss1, res1)" and
    2: "assignOrders maxHours t0 (dss1, res1) todo = Inr (dss', res')"
    by (rule assignOrders_Cons_Inr)
  from Cons.IH[OF 2] assignOrder_driver[OF 1] show ?case by simp
qed

lemma map_driver_initial: "map driver (map (initialDriverState t0) drivers) = drivers"
  by (induction drivers) (simp_all add: initialDriverState_def)

section \<open>The accumulated results\<close>

lemma assignOrder_produced:
  assumes "assignOrder maxHours t0 (driverStates, res) ord = Inr (dss', res')"
    and "set (map driver driverStates) \<subseteq> set drivers" and "ord \<in> set queue"
    and "\<forall>r \<in> set (orderResults res). producedBy drivers queue t0 r"
  shows "\<forall>r \<in> set (orderResults res'). producedBy drivers queue t0 r"
  using assignOrder_cases[of driverStates ord maxHours t0 res]
proof (elim disjE conjE exE)
  assume "assignOrder maxHours t0 (driverStates, res) ord = Inr (driverStates, res)"
  with assms show ?thesis by simp
next
  fix i r
  assume i: "i < length driverStates"
    and s: "simulateDelivery (driverStates ! i) ord t0 = Inr r"
    and a: "assignOrder maxHours t0 (driverStates, res) ord =
        Inr (driverStates[i := recordDelivery (driverStates ! i) r], updateResults res r)"
  from i assms(2) have "driver (driverStates ! i) \<in> set drivers"
    by (metis nth_map length_map nth_mem subsetD)
  with s assms(3) have "producedBy drivers queue t0 r"
    unfolding producedBy_def by blast
  with a assms(1,4) show ?thesis by (auto simp: updateResults_def)
qed

lemma assignOrders_produced:
  assumes "assignOrders maxHours t0 (driverStates, res) todo = Inr (dss', res')"
    and "set (map driver driverStates) \<subseteq> set drivers" and "set todo \<subseteq> set queue"
    and "\<forall>r \<in> set (orderResults res). producedBy drivers queue t0 r"
  shows "\<forall>r \<in> set (orderResults res'). producedBy drivers queue t0 r"
  using assms
proof (induction todo arbitrary: driverStates res)
  case Nil
  then show ?case by simp
next
  case (Cons ord todo)
  from Cons.prems(1) obtain dss1 res1 where
    1: "assignOrder maxHours t0 (driverStates, res) ord = Inr (dss1, res1)" and
    2: "assignOrders maxHours t0 (dss1, res1) todo = Inr (dss', res')"
    by (rule assignOrders_Cons_Inr)
  have p: "\<forall>r \<in> set (orderResults res1). producedBy drivers queue t0 r"
    using assignOrder_produced[OF 1 Cons.prems(2) _ Cons.prems(4)] Cons.prems(3) by simp
  have d: "set (map driver dss1) \<subseteq> set drivers"
    using assignOrder_driver[OF 1] Cons.prems(2) by simp
  from Cons.IH[OF 2 d _ p] Cons.prems(3) show ?case by simp
qed

lemma runAssignment_produced:
  assumes "runAssignment drivers orders maxHours t0 = Inr (dss, res)"
  shows "\<forall>r \<in> set (orderResults res). producedBy drivers orders t0 r"
proof -
  have "\<forall>r \<in> set (orderResults initialResults). producedBy drivers orders t0 r"
    by (simp add: initialResults_def)
  moreover have "set (map driver (map (initialDriverState t0) drivers)) \<subseteq> set drivers"
    unfolding map_driver_initial by simp
  moreover have "set (sortOrders orders) \<subseteq> set orders"
    by (simp add: set_sortOrders)
  ultimately show ?thesis
    using assignOrders_produced[OF assms[unfolded runAssignment_def]] by blast
qed

lemma assignOrder_sums:
  assumes "assignOrder maxHours t0 (driverStates, res) ord = Inr (dss', res')"
    and "totalProfit res = js_sum (map profit (orderResults res))"
    and "totalFuelCost res = js_sum (map fuelCost (orderResults res))"
  shows "totalProfit res' = js_sum (map profit (orderResults res')) \<and>
         totalFuelCost res' = js_sum (map fuelCost (orderResults res'))"
  using assignOrder_cases[of driverStates ord maxHours t0 res] assms
  by (auto simp: updateResults_def js_sum_snoc)

lemma assignOrders_sums:
  assumes "assignOrders maxHours t0 (driverStates, res) todo = Inr (dss', res')"
    and "totalProfit res = js_sum (map profit (orderResults res))"
    and "totalFuelCost res = js_sum (map fuelCost (orderResults res))"
  shows "totalProfit res' = js_sum (map profit (orderResults res')) \<and>
         totalFuelCost res' = js_sum (map fuelCost (orderResults res'))"
  using assms
proof (induction todo arbitrary: driverStates res)
  case Nil
  then show ?case by simp
next
  case (Cons ord todo)
  from Cons.prems(1) obtain dss1 res1 where
    1: "assignOrder maxHours t0 (driverStates, res) ord = Inr (dss1, res1)" and
    2: "assignOrders maxHours t0 (dss1, res1) todo = Inr (dss', res')"
    by (rule assignOrders_Cons_Inr)
  from assignOrder_sums[OF 1 Cons.prems(2,3)] Cons.IH[OF 2] show ?case by simp
qed

lemma simulateDelivery_fields:
  assumes "simulateDelivery ds ord t0 = Inr r"
  shows "\<exists>route. assignedRoute ord = Some route \<and>
     dr_driverId r = driver_id (driver ds) \<and>
     timeSpent r = js_round (baseTime route * getTrafficMultiplier route
                      * fatigueFactor (currentShiftHours (driver ds))) \<and>
     dr_fatigueFactor r = js_round (fatigueFactor (currentShiftHours (driver ds)) * 100) / 100 \<and>
     fuelCost r = js_round_num (calculateFuelCost route) \<and>
     deliveryBonus r = js_round (calculateDeliveryBonus ord) \<and>
     profit r = js_round_num
                  (js_plus
                     (js_minus (Num (valueRs ord * 0.1))
                        (js_plus (calculateFuelCost route)
                           (Num (timeSpent r / 60 * hourlyRate (driver ds)))))
                     (Num (calculateDeliveryBonus ord)))"
proof (cases "assignedRoute ord")
  case None
  with assms show ?thesis by (simp add: simulateDelivery_def)
next
  case (Some route)
  with assms show ?thesis
    by (auto simp: simulateDelivery_def Let_def getFatigueFactor_def)
qed

section \<open>runSimulation\<close>

lemma failed_flag: "\<not> simulationInProgress (snd (failed st))"
  by (simp add: failed_def)

lemma runSimulation_clears:
  assumes "\<not> simulationInProgress st"
  shows "\<not> simulationInProgress (snd (runSimulation e body st))"
  by (simp add: runSimulation_def assms failed_flag Let_def split: option.splits sum.splits)

lemma runSimulation_held:
  assumes "simulationInProgress st"
  shows "runSimulation e body st =
           (if \<not> validNumberOfDrivers body
            then reject 400 ''Number of drivers must be between 1 and 50''
            else if \<not> validMaxHours body
            then reject 400 ''Max hours per driver must be between 1 and 24''
            else reject 409 ''Simulation is already in progress. Please wait for it to complete.'',
            st)"
  by (simp add: runSimulation_def assms validNumberOfDrivers_def validMaxHours_def
      split: option.splits)

lemma runSimulation_invalid:
  assumes "\<not> (validNumberOfDrivers body \<and> validMaxHours body)"
  shows "runSimulation e body st =
           (if \<not> validNumberOfDrivers body
            then reject 400 ''Number of drivers must be between 1 and 50''
            else reject 400 ''Max hours per driver must be between 1 and 24'',
            st)"
  using assms
  by (auto simp: runSimulation_def validNumberOfDrivers_def validMaxHours_def
      split: option.splits)

section \<open>The claims\<close>

text \<open>
  C1. Whatever queue the assignment loop has processed from the initial driver states,
  it has returned, and for every driver state \<open>currentHours\<close> is the driver's
  \<open>currentShiftHours\<close> plus \<open>timeSpent / 60\<close> for each order assigned to it and,
  once an order has been assigned to it, does not exceed \<open>maxHoursPerDriver\<close>. A
  driver state that \<open>findOptimalDriver\<close> returns has passed the hour check: a driver
  whom the estimated time would take past the limit is skipped for that order.
\<close>

theorem hours_within_limit:
  "(\<exists>dss res.
      assignOrders maxHours t0 (map (initialDriverState t0) drivers, initialResults) queue
        = Inr (dss, res) \<and>
      (\<forall>ds \<in> set dss. withinHours maxHours ds)) \<and>
   (findOptimalDriver driverStates ord maxHours = Some i \<longrightarrow>
      i < length driverStates \<and> eligible maxHours ord (driverStates ! i))"
  using assignOrders_within[OF initial_within] findOptimalDriver_Some by blast

theorem hours_within_limit_witness:
  "\<exists>dss res.
     assignOrders 8 0 (map (initialDriverState 0) [driverA], initialResults) [orderA, orderD]
       = Inr (dss, res) \<and>
     map (\<lambda>ds. (length (assignedOrders ds), currentHours ds)) dss = [(2, 11 / 2)] \<and>
     (\<forall>ds \<in> set dss. withinHours 8 ds) \<and>
     findOptimalDriver dss orderA 8 = Some 0 \<and> eligible 8 orderA (dss ! 0)"
proof -
  from hours_within_limit[of 8 0 "[driverA]" "[orderA, orderD]"]
  obtain dss res where
    run: "assignOrders 8 0 (map (initialDriverState 0) [driverA], initialResults) [orderA, orderD]
            = Inr (dss, res)"
    and within: "\<forall>ds \<in> set dss. withinHours 8 ds"
    by blast
  have "map_sum id (\<lambda>(dss, res). (map (\<lambda>ds. (length (assignedOrders ds), currentHours ds)) dss,
            findOptimalDriver dss orderA 8))
          (assignOrders 8 0 (map (initialDriverState 0) [driverA], initialResults) [orderA, orderD])
        = Inr ([(2, 11 / 2)], Some 0)"
    by code_simp
  with run have ev: "map (\<lambda>ds. (length (assignedOrders ds), currentHours ds)) dss = [(2, 11 / 2)]"
    and f: "findOptimalDriver dss orderA 8 = Some 0"
    by simp_all
  from hours_within_limit[of 8 0 "[]" "[]" dss orderA 0] f
  have "eligible 8 orderA (dss ! 0)" by blast
  with run within ev f show ?thesis
    by (intro exI[of _ dss] exI[of _ res]) simp
qed

text \<open>
  C2, as stated, fails. \<open>simulateDelivery\<close> calls \<open>driver.getFatigueFactor()\<close>, which
  reads the \<open>currentShiftHours\<close> field of the driver document, not the
  \<open>currentHours\<close> of the driver state. In the state below the driver has 4.5
  cumulative hours (3.5 at the start plus one delivery of 60 minutes), for which the step
  function gives 1.1, and the delivery is simulated with the factor 1.
\<close>

theorem fatigue_ignores_currentHours:
  "currentHours ((initialDriverState 0 driverA) \<lparr> currentHours := 4.5 \<rparr>) = 4.5 \<and>
   fatigueFactor 4.5 = 1.1 \<and>
   map_sum id (\<lambda>r. (dr_fatigueFactor r, timeSpent r))
     (simulateDelivery ((initialDriverState 0 driverA) \<lparr> currentHours := 4.5 \<rparr>) orderA 0)
     = Inr (1, 60)"
  by (simp add: fatigueFactor_def simulateDelivery_def initialDriverState_def driverA_def
      orderA_def routeA_def getFatigueFactor_def getTrafficMultiplier_def js_round_def Let_def)

text \<open>
  C2, amended. In every run each simulated delivery carries the fatigue factor of the
  \<open>currentShiftHours\<close> field of the input record of its driver, and its duration is
  computed with that factor; the factor of a driver is therefore the same for all of the
  driver's deliveries of one run.
\<close>

theorem fatigue_from_shift_hours:
  "\<exists>dss res.
     runAssignment drivers orders maxHours t0 = Inr (dss, res) \<and>
     (\<forall>r \<in> set (orderResults res).
        \<exists>d \<in> set drivers. \<exists>ord \<in> set orders. \<exists>route.
          assignedRoute ord = Some route \<and>
          dr_driverId r = driver_id d \<and>
          dr_fatigueFactor r = js_round (fatigueFactor (currentShiftHours d) * 100) / 100 \<and>
          timeSpent r = js_round (baseTime route * getTrafficMultiplier route
                           * fatigueFactor (currentShiftHours d)))"
proof -
  obtain dss res where run: "runAssignment drivers orders maxHours t0 = Inr (dss, res)"
    using runAssignment_total by blast
  have "\<exists>d \<in> set drivers. \<exists>ord \<in> set orders. \<exists>route.
          assignedRoute ord = Some route \<and>
          dr_driverId r = driver_id d \<and>
          dr_fatigueFactor r = js_round (fatigueFactor (currentShiftHours d) * 100) / 100 \<and>
          timeSpent r = js_round (baseTime route * getTrafficMultiplier route
                           * fatigueFactor (currentShiftHours d))"
    if "r \<in> set (orderResults res)" for r
  proof -
    from runAssignment_produced[OF run] that
    obtain ds :: driverState and ord where d: "driver ds \<in> set drivers"
      and o: "ord \<in> set orders" and s: "simulateDelivery ds ord t0 = Inr r"
      unfolding producedBy_def by blast
    from simulateDelivery_fields[OF s] d o show ?thesis by blast
  qed
  with run show ?thesis by blast
qed

theorem fatigue_from_shift_hours_witness:
  "\<exists>dss res.
     runAssignment [driverA] [orderA, orderD] 8 0 = Inr (dss, res) \<and>
     map dr_orderId (orderResults res) = [''O1'', ''O5''] \<and>
     (\<forall>r \<in> set (orderResults res). dr_driverId r = 1 \<and> dr_fatigueFactor r = 1 \<and> timeSpent r = 60)"
proof -
  from fatigue_from_shift_hours[of "[driverA]" "[orderA, orderD]" 8 0]
  obtain dss res where run: "runAssignment [driverA] [orderA, orderD] 8 0 = Inr (dss, res)"
    and f: "\<forall>r \<in> set (orderResults res).
        \<exists>d \<in> set [driverA]. \<exists>ord \<in> set [orderA, orderD]. \<exists>route.
          assignedRoute ord = Some route \<and>
          dr_driverId r = driver_id d \<and>
          dr_fatigueFactor r = js_round (fatigueFactor (currentShiftHours d) * 100) / 100 \<and>
          timeSpent r = js_round (baseTime route * getTrafficMultiplier route
                           * fatigueFactor (currentShiftHours d))"
    by blast
  have "map_sum id (\<lambda>(dss, res). map dr_orderId (orderResults res))
          (runAssignment [driverA] [orderA, orderD] 8 0) = Inr [''O1'', ''O5'']"
    by code_simp
  with run have ids: "map dr_orderId (orderResults res) = [''O1'', ''O5'']" by simp
  have "dr_driverId r = 1 \<and> dr_fatigueFactor r = 1 \<and> timeSpent r = 60"
    if "r \<in> set (orderResults res)" for r
  proof -
    from f that show ?thesis
      by (auto simp: driverA_def orderA_def orderD_def routeA_def fatigueFactor_def
          getTrafficMultiplier_def js_round_def)
  qed
  with run ids show ?thesis
    by (intro exI[of _ dss] exI[of _ res]) simp
qed

text \<open>
  C3: the code drops an order for which an eligible driver exists. \<open>findOptimalDriver\<close>
  starts from \<open>bestScore = -1\<close> and takes a driver only on a score above it. The driver
  below (rating 1, 13 shift hours) passes the hour check for the order under a limit
  of 16 hours (13 + 1.5 hours), scores -20, and is not chosen: the order is dropped.
\<close>

theorem eligible_driver_not_chosen:
  "eligible 16 orderB (initialDriverState 0 driverLow) \<and>
   calculateDriverScore (initialDriverState 0 driverLow) orderB routeA = Num (- 20) \<and>
   findOptimalDriver [initialDriverState 0 driverLow] orderB 16 = None \<and>
   map_sum id (\<lambda>(dss, res). (map (\<lambda>ds. length (assignedOrders ds)) dss, totalOrders res))
     (runAssignment [driverLow] [orderB] 16 0) = Inr ([0], 0)"
  by code_simp

text \<open>
  C4: the code does not accumulate the driver earnings. The loop adds
  \<open>deliveryResult.earnings\<close>, a property the delivery result does not have (the field
  is \<open>driverEarnings\<close>), so \<open>totalEarnings\<close> is \<open>NaN\<close> after the first assignment
  and the performance entry reports \<open>NaN\<close>, where the claim has the rounded sum, 150.
\<close>

theorem totalEarnings_is_NaN:
  "map_sum id (\<lambda>res. (map p_totalEarnings (driverPerformance res),
                       map ordersCompleted (driverPerformance res),
                       map driverEarnings (orderResults res)))
     (performDeliverySimulation [driverA] [orderA] 8 None 0) = Inr ([NaN], [1], [150])"
  by code_simp

text \<open>
  C5: the code adds rounded values. The loop adds the \<open>fuelCost\<close> and \<open>profit\<close>
  fields of the delivery result, which \<open>simulateDelivery\<close> has already rounded, so the
  final \<open>Math.round\<close> has nothing left to round. Two deliveries on a route with fuel
  cost 10.4 give \<open>totalFuelCost = 10 + 10 = 20\<close>; the sum of the unrounded costs,
  rounded once, is 21.
\<close>

theorem totals_sum_rounded_values:
  "map_sum id totalFuelCost (performDeliverySimulation [driverA] [orderA, orderD] 8 None 0)
     = Inr (Num 20) \<and>
   map_sum id (\<lambda>res. length (orderResults res))
     (performDeliverySimulation [driverA] [orderA, orderD] 8 None 0) = Inr 2 \<and>
   calculateFuelCost routeA = Num 10.4 \<and>
   js_round_num (js_plus (calculateFuelCost routeA) (calculateFuelCost routeA)) = Num 21"
  by code_simp

text \<open>
  What the simulation computes for the totals in general: it returns, and the final
  \<open>totalProfit\<close> and \<open>totalFuelCost\<close> are the sums of the per-delivery \<open>profit\<close>
  and \<open>fuelCost\<close> fields, each of which is the rounded value of that delivery.
\<close>

lemma totals_of_rounded_deliveries:
  "\<exists>res.
     performDeliverySimulation drivers orders maxHours start now = Inr res \<and>
     totalProfit res = js_sum (map profit (orderResults res)) \<and>
     totalFuelCost res = js_sum (map fuelCost (orderResults res)) \<and>
     (\<forall>r \<in> set (orderResults res).
        \<exists>ds :: driverState. \<exists>ord \<in> set orders. \<exists>route.
          assignedRoute ord = Some route \<and>
          fuelCost r = js_round_num (calculateFuelCost route) \<and>
          profit r = js_round_num
                       (js_plus
                          (js_minus (Num (valueRs ord * 0.1))
                             (js_plus (calculateFuelCost route)
                                (Num (timeSpent r / 60 * hourlyRate (driver ds)))))
                          (Num (calculateDeliveryBonus ord))))"
proof -
  define t0 where "t0 = (case start of Some t \<Rightarrow> t | None \<Rightarrow> now)"
  obtain dss acc where run: "runAssignment drivers orders maxHours t0 = Inr (dss, acc)"
    using runAssignment_total by blast
  define res where "res = summarize (dss, acc)"
  have p: "performDeliverySimulation drivers orders maxHours start now = Inr res"
    by (simp add: performDeliverySimulation_def t0_def[symmetric] run res_def)
  have rs: "orderResults res = orderResults acc"
    by (simp add: res_def summarize_def)
  have each: "\<exists>ds :: driverState. \<exists>ord \<in> set orders. \<exists>route.
          assignedRoute ord = Some route \<and>
          fuelCost r = js_round_num (calculateFuelCost route) \<and>
          profit r = js_round_num
                       (js_plus
                          (js_minus (Num (valueRs ord * 0.1))
                             (js_plus (calculateFuelCost route)
                                (Num (timeSpent r / 60 * hourlyRate (driver ds)))))
                          (Num (calculateDeliveryBonus ord)))"
    if "r \<in> set (orderResults acc)" for r
  proof -
    from runAssignment_produced[OF run] that
    obtain ds :: driverState and ord where o: "ord \<in> set orders"
      and s: "simulateDelivery ds ord t0 = Inr r"
      unfolding producedBy_def by blast
    from simulateDelivery_fields[OF s] o show ?thesis by blast
  qed
  have sums: "totalProfit acc = js_sum (map profit (orderResults acc)) \<and>
              totalFuelCost acc = js_sum (map fuelCost (orderResults acc))"
    using assignOrders_sums[OF run[unfolded runAssignment_def]]
    by (simp add: initialResults_def js_sum_def)
  have "\<forall>r \<in> set (orderResults acc). js_round_num (profit r) = profit r"
    using each js_round_num_idem by metis
  then have ip: "js_round_num (js_sum (map profit (orderResults acc)))
                   = js_sum (map profit (orderResults acc))"
    by (intro js_round_num_sum) simp
  have "\<forall>r \<in> set (orderResults acc). js_round_num (fuelCost r) = fuelCost r"
    using each js_round_num_idem by metis
  then have "js_round_num (js_sum (map fuelCost (orderResults acc)))
                   = js_sum (map fuelCost (orderResults acc))"
    by (intro js_round_num_sum) simp
  with ip sums have "totalProfit res = js_sum (map profit (orderResults res))"
    and "totalFuelCost res = js_sum (map fuelCost (orderResults res))"
    by (simp_all add: res_def summarize_def)
  with p each rs show ?thesis by auto
qed

text \<open>
  C6, as stated, fails. The parameter checks come before the flag is read or written, so
  a request rejected on validation while another run holds the flag returns with the
  flag still set.
\<close>

theorem validation_rejection_keeps_flag:
  "statusCode (fst (runSimulation envA (bodyA \<lparr> maxHoursPerDriver := None \<rparr>) busy)) = 400 \<and>
   simulationInProgress (snd (runSimulation envA (bodyA \<lparr> maxHoursPerDriver := None \<rparr>) busy))"
  by (simp add: runSimulation_def bodyA_def busy_def reject_def)

text \<open>
  C6, amended. After every invocation of \<open>runSimulation\<close> that finds the flag clear
  (success, validation rejection, no drivers, no orders, or an exception) the flag is
  false. An invocation that finds the flag set is rejected, with status 400 if a
  parameter is invalid and with status 409 otherwise, and leaves the flag and the cached
  results as they were.
\<close>

theorem flag_clear_after_run:
  "(\<not> simulationInProgress st \<longrightarrow> \<not> simulationInProgress (snd (runSimulation e body st))) \<and>
   (simulationInProgress st \<longrightarrow>
      snd (runSimulation e body st) = st \<and>
      statusCode (fst (runSimulation e body st))
        = (if validNumberOfDrivers body \<and> validMaxHours body then 409 else 400))"
  using runSimulation_clears[of st e body] runSimulation_held[of st e body]
  by (simp add: reject_def)

theorem flag_clear_after_run_witness:
  "\<not> simulationInProgress idle \<and>
   statusCode (fst (runSimulation (envA \<lparr> orderQueryFails := True \<rparr>) bodyA idle)) = 500 \<and>
   \<not> simulationInProgress (snd (runSimulation (envA \<lparr> orderQueryFails := True \<rparr>) bodyA idle)) \<and>
   statusCode (fst (runSimulation envA bodyA idle)) = 200 \<and>
   \<not> simulationInProgress (snd (runSimulation envA bodyA idle)) \<and>
   simulationInProgress busy \<and>
   snd (runSimulation envA bodyA busy) = busy \<and>
   statusCode (fst (runSimulation envA bodyA busy)) = 409 \<and>
   snd (runSimulation envA (bodyA \<lparr> maxHoursPerDriver := Some 25 \<rparr>) busy) = busy \<and>
   statusCode (fst (runSimulation envA (bodyA \<lparr> maxHoursPerDriver := Some 25 \<rparr>) busy)) = 400"
proof -
  have i: "\<not> simulationInProgress idle" by (simp add: idle_def)
  have b: "simulationInProgress busy" by (simp add: busy_def)
  have v: "validNumberOfDrivers bodyA \<and> validMaxHours bodyA"
    by (simp add: validNumberOfDrivers_def validMaxHours_def bodyA_def)
  have n: "\<not> validMaxHours (bodyA \<lparr> maxHoursPerDriver := Some 25 \<rparr>)"
    by (simp add: validMaxHours_def)
  have "statusCode (fst (runSimulation (envA \<lparr> orderQueryFails := True \<rparr>) bodyA idle)) = 500"
    by (simp add: runSimulation_def envA_def bodyA_def idle_def findActiveDrivers_def
        findPendingOrders_def failed_def reject_def driverA_def)
  moreover have "statusCode (fst (runSimulation envA bodyA idle)) = 200"
    by code_simp
  ultimately show ?thesis
    using i b v n flag_clear_after_run[of idle "envA \<lparr> orderQueryFails := True \<rparr>" bodyA]
      flag_clear_after_run[of idle envA bodyA] flag_clear_after_run[of busy envA bodyA]
      flag_clear_after_run[of busy envA "bodyA \<lparr> maxHoursPerDriver := Some 25 \<rparr>"]
    by simp
qed

text \<open>
  C7, as stated, fails. The parameter checks come first: a request with an invalid
  parameter that arrives while the flag is set is answered with status 400, not 409.
\<close>

theorem invalid_request_while_in_progress:
  "simulationInProgress busy \<and>
   runSimulation envA (bodyA \<lparr> numberOfDrivers := Some 0 \<rparr>) busy
     = (reject 400 ''Number of drivers must be between 1 and 50'', busy)"
  by (simp add: runSimulation_def bodyA_def busy_def)

text \<open>
  C7, amended. If \<open>runSimulation\<close> is invoked with valid parameters while the flag is
  set, it returns the conflict rejection (status 409) at once and leaves the flag and the
  cached results unchanged. With an invalid parameter the same invocation is answered
  with the validation rejection (status 400) of the first parameter that fails, the flag
  and the cached results equally unchanged. The status query reads them unchanged.
\<close>

theorem conflict_while_in_progress:
  assumes "simulationInProgress st"
  shows "(validNumberOfDrivers body \<and> validMaxHours body \<longrightarrow>
            runSimulation e body st
              = (reject 409 ''Simulation is already in progress. Please wait for it to complete.'',
                 st)) \<and>
         (\<not> validNumberOfDrivers body \<longrightarrow>
            runSimulation e body st
              = (reject 400 ''Number of drivers must be between 1 and 50'', st)) \<and>
         (validNumberOfDrivers body \<and> \<not> validMaxHours body \<longrightarrow>
            runSimulation e body st
              = (reject 400 ''Max hours per driver must be between 1 and 24'', st)) \<and>
         statusCode (fst (runSimulation e body st))
           = (if validNumberOfDrivers body \<and> validMaxHours body then 409 else 400) \<and>
         (validNumberOfDrivers body \<longleftrightarrow>
            (\<exists>n. numberOfDrivers body = Some n \<and> 1 \<le> n \<and> n \<le> 50)) \<and>
         (validMaxHours body \<longleftrightarrow>
            (\<exists>h. maxHoursPerDriver body = Some h \<and> 1 \<le> h \<and> h \<le> 24)) \<and>
         getSimulationStatus (snd (runSimulation e body st)) = ((True, simulationResults st), st)"
proof -
  have n: "validNumberOfDrivers body \<longleftrightarrow>
            (\<exists>n. numberOfDrivers body = Some n \<and> 1 \<le> n \<and> n \<le> 50)"
    by (auto simp: validNumberOfDrivers_def split: option.splits)
  have h: "validMaxHours body \<longleftrightarrow>
            (\<exists>h. maxHoursPerDriver body = Some h \<and> 1 \<le> h \<and> h \<le> 24)"
    by (auto simp: validMaxHours_def split: option.splits)
  note run = runSimulation_held[OF assms, of e body]
  have 1: "validNumberOfDrivers body \<and> validMaxHours body \<longrightarrow>
            runSimulation e body st
              = (reject 409 ''Simulation is already in progress. Please wait for it to complete.'',
                 st)"
    by (simp add: run)
  have 2: "\<not> validNumberOfDrivers body \<longrightarrow>
            runSimulation e body st
              = (reject 400 ''Number of drivers must be between 1 and 50'', st)"
    by (simp add: run)
  have 3: "validNumberOfDrivers body \<and> \<not> validMaxHours body \<longrightarrow>
            runSimulation e body st
              = (reject 400 ''Max hours per driver must be between 1 and 24'', st)"
    by (simp add: run)
  have 4: "statusCode (fst (runSimulation e body st))
           = (if validNumberOfDrivers body \<and> validMaxHours body then 409 else 400)"
    by (simp add: run reject_def)
  have 5: "getSimulationStatus (snd (runSimulation e body st)) = ((True, simulationResults st), st)"
    using assms by (simp add: run getSimulationStatus_def)
  from 1 2 3 4 n h 5 show ?thesis by (intro conjI)
qed

theorem conflict_while_in_progress_witness:
  "simulationInProgress busy \<and>
   validNumberOfDrivers bodyA \<and> validMaxHours bodyA \<and>
   statusCode (fst (runSimulation envA bodyA busy)) = 409 \<and>
   snd (runSimulation envA bodyA busy) = busy \<and>
   \<not> validMaxHours (bodyA \<lparr> maxHoursPerDriver := Some 25 \<rparr>) \<and>
   runSimulation envA (bodyA \<lparr> maxHoursPerDriver := Some 25 \<rparr>) busy
     = (reject 400 ''Max hours per driver must be between 1 and 24'', busy) \<and>
   \<not> validNumberOfDrivers (bodyA \<lparr> numberOfDrivers := None \<rparr>) \<and>
   runSimulation envA (bodyA \<lparr> numberOfDrivers := None \<rparr>) busy
     = (reject 400 ''Number of drivers must be between 1 and 50'', busy)"
proof -
  have b: "simulationInProgress busy" by (simp add: busy_def)
  have v: "validNumberOfDrivers bodyA" "validMaxHours bodyA"
    by (simp_all add: validNumberOfDrivers_def validMaxHours_def bodyA_def)
  have n: "validNumberOfDrivers (bodyA \<lparr> maxHoursPerDriver := Some 25 \<rparr>)"
    "\<not> validMaxHours (bodyA \<lparr> maxHoursPerDriver := Some 25 \<rparr>)"
    "\<not> validNumberOfDrivers (bodyA \<lparr> numberOfDrivers := None \<rparr>)"
    by (simp_all add: validNumberOfDrivers_def validMaxHours_def bodyA_def)
  from conflict_while_in_progress[OF b, of bodyA envA]
    conflict_while_in_progress[OF b, of "bodyA \<lparr> maxHoursPerDriver := Some 25 \<rparr>" envA]
    conflict_while_in_progress[OF b, of "bodyA \<lparr> numberOfDrivers := None \<rparr>" envA]
    b v n
  show ?thesis by (simp add: reject_def)
qed




text \<open>
  C9. The assignment loop returns, and the driver record held by each final driver state
  is the input driver record at the same position, with every field as it was: the loop
  writes only the hours, the orders, the earnings, the distance and the time of the
  per-run state records.
\<close>

theorem driver_records_unchanged:
  "\<exists>dss res. runAssignment drivers orders maxHours t0 = Inr (dss, res) \<and> map driver dss = drivers"
proof -
  obtain dss res where run: "runAssignment drivers orders maxHours t0 = Inr (dss, res)"
    using runAssignment_total by blast
  from assignOrders_driver[OF run[unfolded runAssignment_def]]
  have "map driver dss = drivers" by (simp only: map_driver_initial)
  with run show ?thesis by blast
qed

text \<open>
  C10, as stated, fails. The query for the pending orders filters on the status alone,
  and a stored pending order may carry a delivery timestamp: the order below is returned
  by the query and is simulated, and its \<open>deliveryTimestamp\<close> is not null.
\<close>

theorem pending_order_with_timestamp:
  "findPendingOrders (envA \<lparr> ordersCollection := [orderStamped] \<rparr>)
     = Inr [populateOrder orderStamped] \<and>
   order_status (populateOrder orderStamped) = ''pending'' \<and>
   deliveryTimestamp (populateOrder orderStamped) = Some 5 \<and>
   order_status orderStamped = ''pending'' \<and>
   deliveryTimestamp orderStamped = Some 5 \<and>
   map_sum id (\<lambda>res. map dr_orderId (orderResults res))
     (performDeliverySimulation [driverA] [orderStamped] 8 None 0) = Inr [''O6'']"
proof -
  have "map_sum id (\<lambda>res. map dr_orderId (orderResults res))
     (performDeliverySimulation [driverA] [orderStamped] 8 None 0) = Inr [''O6'']"
    by code_simp
  then show ?thesis
    by (simp add: findPendingOrders_def populateOrder_def envA_def orderStamped_def orderA_def)
qed

text \<open>
  C10, amended. The orders that \<open>runSimulation\<close> passes to the simulation are those the
  query for status pending returns, so each has status pending; its delivery timestamp
  need not be null. For an order with status pending and a value within the schema's
  range (at least 1), the delivery bonus is 2 percent of the value if the order is
  high-value and 0 otherwise; it is not negative; the bonus and the profit of the
  simulated delivery are computed from that amount alone, also when the delivery is late;
  and the simulated delivery is the same whatever the delivery timestamp of the order.
\<close>

theorem pending_order_bonus:
  "(findPendingOrders e = Inr pendingOrders \<longrightarrow>
      (\<forall>ord \<in> set pendingOrders. order_status ord = ''pending'')) \<and>
   (order_status ord = ''pending'' \<and> 1 \<le> valueRs ord \<and> simulateDelivery ds ord t0 = Inr r \<longrightarrow>
      calculateDeliveryBonus ord = (if isHighValue ord then valueRs ord * 0.02 else 0) \<and>
      0 \<le> calculateDeliveryBonus ord \<and>
      deliveryBonus r = js_round (if isHighValue ord then valueRs ord * 0.02 else 0) \<and>
      (\<exists>route. assignedRoute ord = Some route \<and>
         profit r = js_round_num
                      (js_plus
                         (js_minus (Num (valueRs ord * 0.1))
                            (js_plus (calculateFuelCost route)
                               (Num (timeSpent r / 60 * hourlyRate (driver ds)))))
                         (Num (if isHighValue ord then valueRs ord * 0.02 else 0)))) \<and>
      (\<forall>t. simulateDelivery ds (ord \<lparr> deliveryTimestamp := t \<rparr>) t0 = Inr r))"
proof -
  have q: "\<forall>ord \<in> set pendingOrders. order_status ord = ''pending''"
    if "findPendingOrders e = Inr pendingOrders"
    using that by (auto simp: findPendingOrders_def populateOrder_def split: if_splits)
  have s: "calculateDeliveryBonus ord = (if isHighValue ord then valueRs ord * 0.02 else 0) \<and>
      0 \<le> calculateDeliveryBonus ord \<and>
      deliveryBonus r = js_round (if isHighValue ord then valueRs ord * 0.02 else 0) \<and>
      (\<exists>route. assignedRoute ord = Some route \<and>
         profit r = js_round_num
                      (js_plus
                         (js_minus (Num (valueRs ord * 0.1))
                            (js_plus (calculateFuelCost route)
                               (Num (timeSpent r / 60 * hourlyRate (driver ds)))))
                         (Num (if isHighValue ord then valueRs ord * 0.02 else 0)))) \<and>
      (\<forall>t. simulateDelivery ds (ord \<lparr> deliveryTimestamp := t \<rparr>) t0 = Inr r)"
    if p: "order_status ord = ''pending''" and v: "1 \<le> valueRs ord"
      and sim: "simulateDelivery ds ord t0 = Inr r"
  proof -
    have b: "calculateDeliveryBonus (ord \<lparr> deliveryTimestamp := t \<rparr>)
               = (if isHighValue ord then valueRs ord * 0.02 else 0)" for t
      using p v by (simp add: calculateDeliveryBonus_def Let_def)
    from b[of "deliveryTimestamp ord"]
    have b0: "calculateDeliveryBonus ord = (if isHighValue ord then valueRs ord * 0.02 else 0)"
      by simp
    with v have n: "0 \<le> calculateDeliveryBonus ord" by simp
    have "calculateDeliveryBonus (ord \<lparr> deliveryTimestamp := t \<rparr>) = calculateDeliveryBonus ord"
      for t
      using b[of t] b0 by simp
    then have "simulateDelivery ds (ord \<lparr> deliveryTimestamp := t \<rparr>) t0 = simulateDelivery ds ord t0"
      for t
      by (simp add: simulateDelivery_def Let_def split: option.split)
    with sim have i: "simulateDelivery ds (ord \<lparr> deliveryTimestamp := t \<rparr>) t0 = Inr r" for t
      by simp
    from simulateDelivery_fields[OF sim] b0 n i show ?thesis by auto
  qed
  from q s show ?thesis by blast
qed

theorem pending_order_bonus_witness:
  "findPendingOrders (envA \<lparr> ordersCollection := [orderLate, orderStamped] \<rparr>)
     = Inr [populateOrder orderLate, populateOrder orderStamped] \<and>
   order_status (populateOrder orderStamped) = ''pending'' \<and>
   order_status orderLate = ''pending'' \<and> 1 \<le> valueRs orderLate \<and>
   map_sum id (\<lambda>r. (isOnTime r, deliveryBonus r, profit r))
     (simulateDelivery (initialDriverState 0 driverA) orderLate 0) = Inr (False, 300, Num 1640) \<and>
   calculateDeliveryBonus orderLate = 300 \<and>
   simulateDelivery (initialDriverState 0 driverA) (orderLate \<lparr> deliveryTimestamp := Some 5 \<rparr>) 0
     = simulateDelivery (initialDriverState 0 driverA) orderLate 0"
proof -
  have 1: "findPendingOrders (envA \<lparr> ordersCollection := [orderLate, orderStamped] \<rparr>)
     = Inr [populateOrder orderLate, populateOrder orderStamped]"
    by (simp add: findPendingOrders_def envA_def orderLate_def orderStamped_def orderA_def)
  have 2: "order_status orderLate = ''pending''" by (simp add: orderLate_def orderA_def)
  have 3: "1 \<le> valueRs orderLate" by (simp add: orderLate_def orderA_def)
  obtain r where 4: "simulateDelivery (initialDriverState 0 driverA) orderLate 0 = Inr r"
    by (simp add: simulateDelivery_def orderLate_def orderA_def Let_def)
  have 5: "map_sum id (\<lambda>r. (isOnTime r, deliveryBonus r, profit r))
     (simulateDelivery (initialDriverState 0 driverA) orderLate 0) = Inr (False, 300, Num 1640)"
    by code_simp
  note t = pending_order_bonus[of "envA \<lparr> ordersCollection := [orderLate, orderStamped] \<rparr>"
      "[populateOrder orderLate, populateOrder orderStamped]" orderLate
      "initialDriverState 0 driverA" 0 r]
  from t 1 have 6: "order_status (populateOrder orderStamped) = ''pending''" by simp
  from t 2 3 4 have 7: "calculateDeliveryBonus orderLate = 300"
    by (simp add: orderLate_def orderA_def)
  from t 2 3 4
  have "simulateDelivery (initialDriverState 0 driverA) (orderLate \<lparr> deliveryTimestamp := Some 5 \<rparr>) 0
          = Inr r"
    by blast
  with 1 2 3 4 5 6 7 show ?thesis by simp
qed

end
